theory Spec2Isabelle
  imports Complex_Main "HOL-Library.Sublist"
begin

section \<open>Data model\<close>

text \<open>
  The asynchronous client of the Azure Quantum service: the modules
  \<^verbatim>\<open>azure/quantum/aio/job/job.py\<close> (class \<^verbatim>\<open>Job\<close> with a timeout budget),
  \<^verbatim>\<open>azure/quantum/aio/job.py\<close> (the simpler class \<^verbatim>\<open>Job\<close>; its definitions carry the
  suffix \<open>_simple\<close> here) and \<^verbatim>\<open>azure/quantum/aio/workspace.py\<close> (class \<^verbatim>\<open>Workspace\<close>).

  Python strings are modelled as \<open>string\<close>: lists of characters with code points below 256.
  Python numbers (\<^verbatim>\<open>poll_wait\<close>, \<^verbatim>\<open>total_time\<close>, the two time limits) are modelled as exact
  rationals: \<^verbatim>\<open>0.2\<close> is \<open>1/5\<close> and \<^verbatim>\<open>poll_wait * 1.5\<close> is \<open>poll_wait * (3/2)\<close>, without the
  rounding of binary floating point.
\<close>

text \<open>
  \<^verbatim>\<open>JobDetails\<close> is declared in \<^verbatim>\<open>azure.quantum._client.models\<close>; the fields the three modules
  read are kept: \<^verbatim>\<open>id\<close>, \<^verbatim>\<open>status\<close>, \<^verbatim>\<open>output_data_uri\<close> and \<^verbatim>\<open>error_data\<close>.
\<close>

record job_details =
  details_id :: string
  status :: string
  output_data_uri :: "string option"
  error_data :: "string option"

text \<open>The value \<^verbatim>\<open>json.loads\<close> returns.\<close>

datatype json =
  JNull
  | JBool bool
  | JNum rat
  | JStr string
  | JArr "json list"
  | JObj "(string \<times> json) list"

text \<open>
  The exceptions of the three modules. \<open>ValueError\<close>, \<open>TimeoutError\<close> and \<open>RuntimeError\<close> are
  raised by the modules themselves; \<open>RuntimeError\<close> carries the status and the error data its
  message is formatted from. \<open>TypeError\<close> is what Python raises on an operand of the wrong
  type. \<open>ServiceError\<close> stands for any exception of a collaborator (the generated REST
  client, the blob client, the JSON decoder), which the modules let through unchanged.
\<close>

datatype error =
  ValueError string
  | TimeoutError rat
  | RuntimeError string "string option"
  | TypeError
  | ServiceError string

text \<open>
  What \<^verbatim>\<open>blob_uri\<close> can hold when it is handed to \<^verbatim>\<open>_download_blob\<close>: a string, or the coroutine
  object that a call of the \<^verbatim>\<open>async def _get_linked_storage_sas_uri\<close> returns when it is not
  awaited (with the arguments of that call).
\<close>

datatype uri_value =
  UriStr string
  | SasCoroutine string "string option"

text \<open>
  The effects that leave the process, in the order they happen: a remote
  \<^verbatim>\<open>jobs.get\<close>, a remote \<^verbatim>\<open>storage.sas_uri\<close>, a download through a blob client, a
  suspension of the task by an awaited \<^verbatim>\<open>asyncio.sleep\<close>, and a dot printed to stdout.
  \<open>BlobDownload v\<close> is a call of the blob client with the value \<open>v\<close> as its URL.
\<close>

datatype event =
  JobsGet string
  | StorageSasUri string "string option"
  | BlobDownload uri_value
  | Sleep rat
  | PrintDot

type_synonym world = "event list"

text \<open>
  The collaborators outside the three modules (section 6 of the specification), as
  functions. A remote answer may depend on when it is asked: the first argument of a remote
  operation is the number of effects that happened before it.
  \<^item> \<open>jobs_get\<close>: \<^verbatim>\<open>self._client.jobs.get(job_id)\<close>;
  \<^item> \<open>storage_sas_uri\<close>: \<^verbatim>\<open>self._client.storage.sas_uri(blob_details=...)\<close>, its \<^verbatim>\<open>sas_uri\<close>;
  \<^item> \<open>blob_names\<close>: \<^verbatim>\<open>container_name\<close> and \<^verbatim>\<open>blob_name\<close> of \<^verbatim>\<open>BlobClient.from_blob_url(uri)\<close>;
  \<^item> \<open>blob_readall\<close>: \<^verbatim>\<open>BlobClient.from_blob_url(blob_url)\<close> followed by
    \<^verbatim>\<open>download_blob()\<close> and \<^verbatim>\<open>readall()\<close>, for whatever value \<^verbatim>\<open>blob_url\<close> holds;
  \<^item> \<open>json_loads_utf8\<close>: \<^verbatim>\<open>json.loads(payload.decode("utf8"))\<close>.
\<close>

record env =
  jobs_get :: "nat \<Rightarrow> string \<Rightarrow> error + job_details"
  storage_sas_uri :: "nat \<Rightarrow> string \<Rightarrow> string option \<Rightarrow> error + string"
  blob_names :: "string \<Rightarrow> error + (string \<times> string)"
  blob_readall :: "nat \<Rightarrow> uri_value \<Rightarrow> error + string"
  json_loads_utf8 :: "string \<Rightarrow> error + json"

text \<open>
  An \<^verbatim>\<open>async def\<close> function returns a coroutine object when it is called; its body runs
  only when the coroutine is awaited. A coroutine is the state transformer its body
  denotes, and \<open>await\<close> runs it.
\<close>

type_synonym 'a coroutine = "world \<Rightarrow> (error + 'a) \<times> world"

definition await :: "'a coroutine \<Rightarrow> world \<Rightarrow> (error + 'a) \<times> world" where
  "await c w = c w"

definition asyncio_sleep :: "rat \<Rightarrow> unit coroutine" where
  "asyncio_sleep delay = (\<lambda>w. (Inr (), w @ [Sleep delay]))"

section \<open>Workspace: remote operations\<close>

text \<open>
  The fields of a \<^verbatim>\<open>Workspace\<close> that \<^verbatim>\<open>__init__\<close> assigns (with the prefix \<open>ws_\<close>). The client
  (\<^verbatim>\<open>QuantumClient\<close>) is the tuple of the arguments it is built from.
\<close>

datatype credential =
  DefaultAzureCredential bool string string
  | GivenCredential string

record quantum_client =
  client_credential :: credential
  client_subscription_id :: string
  client_resource_group_name :: string
  client_workspace_name :: string
  client_base_url :: string

record workspace =
  ws_credentials :: credential
  ws_name :: string
  ws_resource_group :: string
  ws_subscription_id :: string
  ws_storage :: "string option"
  ws_location :: string
  ws_client :: quantum_client

text \<open>
  \<^verbatim>\<open>Job\<close>: both classes assign the same four fields in \<^verbatim>\<open>__init__\<close>.
\<close>

record job =
  job_workspace :: workspace
  details :: job_details
  job_id :: string
  results :: "json option"

definition Job_init :: "workspace \<Rightarrow> job_details \<Rightarrow> job" where
  "Job_init ws job_details =
     \<lparr>job_workspace = ws, details = job_details, job_id = details_id job_details,
      results = None\<rparr>"

text \<open>\<^verbatim>\<open>Workspace.get_job\<close>: one remote \<^verbatim>\<open>jobs.get\<close>, wrapped in a new \<^verbatim>\<open>Job\<close>.\<close>

definition get_job :: "env \<Rightarrow> workspace \<Rightarrow> string \<Rightarrow> job coroutine" where
  "get_job E ws jid =
     (\<lambda>w. case jobs_get E (length w) jid of
             Inl e \<Rightarrow> (Inl e, w @ [JobsGet jid])
           | Inr d \<Rightarrow> (Inr (Job_init ws d), w @ [JobsGet jid]))"

text \<open>\<^verbatim>\<open>Workspace._get_linked_storage_sas_uri\<close>: one remote \<^verbatim>\<open>storage.sas_uri\<close>.\<close>

definition get_linked_storage_sas_uri ::
  "env \<Rightarrow> workspace \<Rightarrow> string \<Rightarrow> string option \<Rightarrow> string coroutine" where
  "get_linked_storage_sas_uri E ws container_name blob_name =
     (\<lambda>w. case storage_sas_uri E (length w) container_name blob_name of
             Inl e \<Rightarrow> (Inl e, w @ [StorageSasUri container_name blob_name])
           | Inr u \<Rightarrow> (Inr u, w @ [StorageSasUri container_name blob_name]))"

section \<open>Job: refresh, completion, waiting\<close>

text \<open>
  A method of \<^verbatim>\<open>Job\<close> takes the object and the world and returns its result with both,
  updated. \<^verbatim>\<open>refresh\<close> has the same body in both classes; when \<^verbatim>\<open>get_job\<close> raises, the
  assignment to \<^verbatim>\<open>self.details\<close> does not happen.
\<close>

type_synonym 'a outcome = "(error + 'a) \<times> job \<times> world"

definition refresh :: "env \<Rightarrow> job \<Rightarrow> world \<Rightarrow> unit outcome" where
  "refresh E self w =
     (case await (get_job E (job_workspace self) (job_id self)) w of
        (Inl e, w') \<Rightarrow> (Inl e, self, w')
      | (Inr j, w') \<Rightarrow> (Inr (), self\<lparr>details := details j\<rparr>, w'))"

definition has_completed :: "job \<Rightarrow> bool" where
  "has_completed self =
     (status (details self) = ''Succeeded''
      \<or> status (details self) = ''Failed''
      \<or> status (details self) = ''Cancelled'')"

text \<open>
  The assignment at the end of the loop body of \<^verbatim>\<open>wait_until_completed\<close>, the same in both
  classes: \<^verbatim>\<open>max_poll_wait_secs if poll_wait >= max_poll_wait_secs else poll_wait * 1.5\<close>.
\<close>

definition next_poll_wait :: "rat \<Rightarrow> rat \<Rightarrow> rat" where
  "next_poll_wait max_poll_wait_secs poll_wait =
     (if poll_wait \<ge> max_poll_wait_secs then max_poll_wait_secs else poll_wait * (3 / 2))"

text \<open>
  The \<^verbatim>\<open>while\<close> loop of \<^verbatim>\<open>wait_until_completed\<close> in \<^verbatim>\<open>aio/job/job.py\<close>. The loop may run
  for ever (a job that never completes, no timeout): the result \<open>None\<close> is a call that does
  not return. In the body, \<^verbatim>\<open>asyncio.sleep(poll_wait)\<close> is called without \<^verbatim>\<open>await\<close>: the
  coroutine object is built and dropped.
\<close>

partial_function (option) wait_loop ::
  "env \<Rightarrow> rat \<Rightarrow> rat option \<Rightarrow> bool \<Rightarrow> rat \<Rightarrow> rat \<Rightarrow> job \<Rightarrow> world \<Rightarrow> unit outcome option"
where
  "wait_loop E max_poll_wait_secs timeout_secs print_progress poll_wait total_time self w =
     (if has_completed self then Some (Inr (), self, w)
      else if timeout_secs \<noteq> None \<and> total_time \<ge> the timeout_secs
        then Some (Inl (TimeoutError (the timeout_secs)), self, w)
      else
        (let w1 = (if print_progress then w @ [PrintDot] else w);
             dropped = asyncio_sleep poll_wait;
             total_time' = total_time + poll_wait
         in case refresh E self w1 of
              (Inl e, self', w2) \<Rightarrow> Some (Inl e, self', w2)
            | (Inr u, self', w2) \<Rightarrow>
                wait_loop E max_poll_wait_secs timeout_secs print_progress
                  (next_poll_wait max_poll_wait_secs poll_wait) total_time' self' w2))"

declare wait_loop.simps [code]

definition wait_until_completed ::
  "env \<Rightarrow> rat \<Rightarrow> rat option \<Rightarrow> bool \<Rightarrow> job \<Rightarrow> world \<Rightarrow> unit outcome option" where
  "wait_until_completed E max_poll_wait_secs timeout_secs print_progress self w =
     (case refresh E self w of
        (Inl e, self', w') \<Rightarrow> Some (Inl e, self', w')
      | (Inr u, self', w') \<Rightarrow>
          wait_loop E max_poll_wait_secs timeout_secs print_progress (1 / 5) 0 self' w')"

text \<open>
  The same loop in \<^verbatim>\<open>aio/job.py\<close>: no timeout, the dot is always printed, and
  \<^verbatim>\<open>asyncio.sleep(poll_wait)\<close> is awaited.
\<close>

partial_function (option) wait_loop_simple ::
  "env \<Rightarrow> rat \<Rightarrow> rat \<Rightarrow> job \<Rightarrow> world \<Rightarrow> unit outcome option"
where
  "wait_loop_simple E max_poll_wait_secs poll_wait self w =
     (if has_completed self then Some (Inr (), self, w)
      else
        (case await (asyncio_sleep poll_wait) (w @ [PrintDot]) of
           (Inl e, w1) \<Rightarrow> Some (Inl e, self, w1)
         | (Inr u, w1) \<Rightarrow>
             (case refresh E self w1 of
                (Inl e, self', w2) \<Rightarrow> Some (Inl e, self', w2)
              | (Inr u', self', w2) \<Rightarrow>
                  wait_loop_simple E max_poll_wait_secs
                    (next_poll_wait max_poll_wait_secs poll_wait) self' w2)))"

declare wait_loop_simple.simps [code]

definition wait_until_completed_simple ::
  "env \<Rightarrow> rat \<Rightarrow> job \<Rightarrow> world \<Rightarrow> unit outcome option" where
  "wait_until_completed_simple E max_poll_wait_secs self w =
     (case refresh E self w of
        (Inl e, self', w') \<Rightarrow> Some (Inl e, self', w')
      | (Inr u, self', w') \<Rightarrow> wait_loop_simple E max_poll_wait_secs (1 / 5) self' w')"

section \<open>Job: result retrieval\<close>

text \<open>
  \<^verbatim>\<open>s.find(sub)\<close> of Python: the lowest index where \<^verbatim>\<open>sub\<close> starts in \<^verbatim>\<open>s\<close>, or \<open>-1\<close>.
\<close>

fun find_from :: "string \<Rightarrow> string \<Rightarrow> int \<Rightarrow> int" where
  "find_from [] sub i = (if sub = [] then i else - 1)"
| "find_from (c # cs) sub i =
     (if prefix sub (c # cs) then i else find_from cs sub (i + 1))"

definition str_find :: "string \<Rightarrow> string \<Rightarrow> int" where
  "str_find s sub = find_from s sub 0"

text \<open>
  The \<^verbatim>\<open>query\<close> attribute of \<^verbatim>\<open>urllib.parse.urlparse(uri)\<close>: the scheme and the network
  location contain neither \<^verbatim>\<open>#\<close> nor \<^verbatim>\<open>?\<close>; the fragment is cut at the first \<^verbatim>\<open>#\<close>, then the
  query is what follows the first \<^verbatim>\<open>?\<close>. The \<^verbatim>\<open>ValueError\<close> of \<^verbatim>\<open>urlparse\<close> on a malformed
  bracketed host is not part of this model.
\<close>

definition urlparse_query :: "string \<Rightarrow> string" where
  "urlparse_query uri =
     (case dropWhile (\<lambda>c. c \<noteq> CHR ''?'') (takeWhile (\<lambda>c. c \<noteq> CHR ''#'') uri) of
        [] \<Rightarrow> []
      | q # query \<Rightarrow> query)"

text \<open>
  \<^verbatim>\<open>Job._download_blob\<close> of \<^verbatim>\<open>aio/job.py\<close>: a blob client for the URL, then the download.
\<close>

definition download_blob :: "env \<Rightarrow> uri_value \<Rightarrow> string coroutine" where
  "download_blob E blob_url =
     (\<lambda>w. case blob_readall E (length w) blob_url of
             Inl e \<Rightarrow> (Inl e, w @ [BlobDownload blob_url])
           | Inr payload \<Rightarrow> (Inr payload, w @ [BlobDownload blob_url]))"

text \<open>
  \<^verbatim>\<open>Job.get_results\<close> of \<^verbatim>\<open>aio/job.py\<close>. \<^verbatim>\<open>has_completed\<close> is inherited from the synchronous
  \<^verbatim>\<open>Job\<close>, which has the predicate of \<^verbatim>\<open>aio/job/job.py\<close> (section 4.2 of the specification).
  When the query has no \<^verbatim>\<open>se=\<close>, \<^verbatim>\<open>self.workspace._get_linked_storage_sas_uri(...)\<close> is called
  without \<^verbatim>\<open>await\<close>: \<^verbatim>\<open>blob_uri\<close> is the coroutine object, and that object is what
  \<^verbatim>\<open>_download_blob\<close> receives. On an \<^verbatim>\<open>output_data_uri\<close> that is \<^verbatim>\<open>None\<close>, \<^verbatim>\<open>urlparse\<close> returns
  bytes and \<^verbatim>\<open>find\<close> with a string argument raises \<^verbatim>\<open>TypeError\<close>.
\<close>

definition get_results_simple :: "env \<Rightarrow> job \<Rightarrow> world \<Rightarrow> json outcome option" where
  "get_results_simple E self w =
     (case results self of
        Some r \<Rightarrow> Some (Inr r, self, w)
      | None \<Rightarrow>
         (case (if \<not> has_completed self then wait_until_completed_simple E 30 self w
                else Some (Inr (), self, w)) of
            None \<Rightarrow> None
          | Some (Inl e, self1, w1) \<Rightarrow> Some (Inl e, self1, w1)
          | Some (Inr u, self1, w1) \<Rightarrow>
             (if \<not> status (details self1) = ''Succeeded''
              then Some (Inl (RuntimeError (status (details self1)) (error_data (details self1))),
                         self1, w1)
              else
               (case output_data_uri (details self1) of
                  None \<Rightarrow> Some (Inl TypeError, self1, w1)
                | Some uri \<Rightarrow>
                   (case
                      (if str_find (urlparse_query uri) ''se='' = - 1
                       then
                         (case blob_names E uri of
                            Inl e \<Rightarrow> (Inl e, w1)
                          | Inr (container_name, blob_name) \<Rightarrow>
                              (let blob_uri = SasCoroutine container_name (Some blob_name)
                               in await (download_blob E blob_uri) w1))
                       else await (download_blob E (UriStr uri)) w1) of
                      (Inl e, w2) \<Rightarrow> Some (Inl e, self1, w2)
                    | (Inr payload, w2) \<Rightarrow>
                       (case json_loads_utf8 E payload of
                          Inl e \<Rightarrow> Some (Inl e, self1, w2)
                        | Inr result \<Rightarrow> Some (Inr result, self1, w2)))))))"

text \<open>
  Modelled from the spec: \<^verbatim>\<open>download_data\<close>, which \<^verbatim>\<open>aio/job/job.py\<close> inherits from
  \<^verbatim>\<open>BaseJob\<close> (\<^verbatim>\<open>azure/quantum/aio/job/base_job.py\<close>, not among the sources). Section 4.5:
  a URI that already embeds \<^verbatim>\<open>se=\<close> in its query is used as it is; otherwise the container and
  blob names are extracted from it, a fresh SAS URI is requested from the workspace
  (a remote call), and that URI is used for the download.
\<close>

definition download_data :: "env \<Rightarrow> job \<Rightarrow> string option \<Rightarrow> string coroutine" where
  "download_data E self blob_uri =
     (\<lambda>w. case blob_uri of
             None \<Rightarrow> (Inl TypeError, w)
           | Some uri \<Rightarrow>
              (if str_find (urlparse_query uri) ''se='' = - 1
               then
                 (case blob_names E uri of
                    Inl e \<Rightarrow> (Inl e, w)
                  | Inr (container_name, blob_name) \<Rightarrow>
                     (case await (get_linked_storage_sas_uri E (job_workspace self)
                                    container_name (Some blob_name)) w of
                        (Inl e, w1) \<Rightarrow> (Inl e, w1)
                      | (Inr sas_uri, w1) \<Rightarrow> await (download_blob E (UriStr sas_uri)) w1))
               else await (download_blob E (UriStr uri)) w))"

text \<open>
  \<^verbatim>\<open>Job.get_results\<close> of \<^verbatim>\<open>aio/job/job.py\<close>. The decoded value is bound to the local variable
  \<^verbatim>\<open>results\<close> and returned; \<^verbatim>\<open>self.results\<close> is not assigned.
\<close>

definition get_results :: "env \<Rightarrow> rat option \<Rightarrow> job \<Rightarrow> world \<Rightarrow> json outcome option" where
  "get_results E timeout_secs self w =
     (case results self of
        Some r \<Rightarrow> Some (Inr r, self, w)
      | None \<Rightarrow>
         (case (if \<not> has_completed self
                then wait_until_completed E 30 timeout_secs True self w
                else Some (Inr (), self, w)) of
            None \<Rightarrow> None
          | Some (Inl e, self1, w1) \<Rightarrow> Some (Inl e, self1, w1)
          | Some (Inr u, self1, w1) \<Rightarrow>
             (if \<not> status (details self1) = ''Succeeded''
              then Some (Inl (RuntimeError (status (details self1)) (error_data (details self1))),
                         self1, w1)
              else
               (case await (download_data E self1 (output_data_uri (details self1))) w1 of
                  (Inl e, w2) \<Rightarrow> Some (Inl e, self1, w2)
                | (Inr payload, w2) \<Rightarrow>
                   (case json_loads_utf8 E payload of
                      Inl e \<Rightarrow> Some (Inl e, self1, w2)
                    | Inr results' \<Rightarrow> Some (Inr results', self1, w2))))))"

section \<open>Workspace: construction\<close>

text \<open>
  Character classes of Python on code points below 256: \<^verbatim>\<open>\s\<close> of \<^verbatim>\<open>re\<close> and the
  separators of \<^verbatim>\<open>str.split()\<close> are the characters with \<^verbatim>\<open>str.isspace()\<close>;
  \<^verbatim>\<open>str.lower()\<close> maps \<^verbatim>\<open>A-Z\<close> and the capital letters of Latin-1 to their small letters.
\<close>

definition is_space :: "char \<Rightarrow> bool" where
  "is_space c =
     (let n = (of_char c :: nat)
      in (9 \<le> n \<and> n \<le> 13) \<or> (28 \<le> n \<and> n \<le> 32) \<or> n = 133 \<or> n = 160)"

definition to_lower :: "char \<Rightarrow> char" where
  "to_lower c =
     (let n = (of_char c :: nat)
      in if (65 \<le> n \<and> n \<le> 90) \<or> (192 \<le> n \<and> n \<le> 222 \<and> n \<noteq> 215)
         then char_of (n + 32) else c)"

text \<open>The class \<^verbatim>\<open>[a-fA-F0-9-]\<close> and the class \<^verbatim>\<open>[^\s/]\<close> of the pattern.\<close>

definition is_hex_dash :: "char \<Rightarrow> bool" where
  "is_hex_dash c = (c \<in> set ''abcdefABCDEF0123456789-'')"

definition is_segment_char :: "char \<Rightarrow> bool" where
  "is_segment_char c = (\<not> is_space c \<and> c \<noteq> CHR ''/'')"

text \<open>
  A literal part of the pattern under \<^verbatim>\<open>re.IGNORECASE\<close>: the literal must start the text, up
  to the case of letters; the result is the text after it.
\<close>

definition strip_literal :: "string \<Rightarrow> string \<Rightarrow> string option" where
  "strip_literal lit s =
     (if length lit \<le> length s \<and> map to_lower (take (length lit) s) = map to_lower lit
      then Some (drop (length lit) s) else None)"

text \<open>
  \<^verbatim>\<open>re.search(regex, resource_id, re.IGNORECASE)\<close> with the pattern
  \<^verbatim>\<open>^/subscriptions/([a-fA-F0-9-]*)/resourceGroups/([^\s/]*)/providers/Microsoft\.Quantum/Workspaces/([^\s/]*)$\<close>
  and its three groups. \<^verbatim>\<open>^\<close> anchors the search at the start. Each starred class is
  followed by a literal that starts with \<^verbatim>\<open>/\<close>, or by \<^verbatim>\<open>$\<close>; no class contains \<^verbatim>\<open>/\<close>, so a
  group can only be the longest run of its class. \<^verbatim>\<open>$\<close> matches at the end of the text and
  before a newline that ends the text.
\<close>

definition match_resource_id :: "string \<Rightarrow> (string \<times> string \<times> string) option" where
  "match_resource_id resource_id =
     (case strip_literal ''/subscriptions/'' resource_id of
        None \<Rightarrow> None
      | Some r1 \<Rightarrow>
         (case strip_literal ''/resourceGroups/'' (dropWhile is_hex_dash r1) of
            None \<Rightarrow> None
          | Some r2 \<Rightarrow>
             (case strip_literal ''/providers/Microsoft.Quantum/Workspaces/''
                     (dropWhile is_segment_char r2) of
                None \<Rightarrow> None
              | Some r3 \<Rightarrow>
                 (if dropWhile is_segment_char r3 = [] \<or> dropWhile is_segment_char r3 = [CHR 0x0A]
                  then Some (takeWhile is_hex_dash r1, takeWhile is_segment_char r2,
                             takeWhile is_segment_char r3)
                  else None))))"

text \<open>\<^verbatim>\<open>not x\<close> on an optional string: \<^verbatim>\<open>None\<close> and the empty string are false.\<close>

definition falsy :: "string option \<Rightarrow> bool" where
  "falsy x = (x = None \<or> x = Some [])"

text \<open>
  The first statement of \<^verbatim>\<open>Workspace.__init__\<close>: a resource ID that matches the pattern
  replaces the three components by its groups.
\<close>

definition resolve_identity ::
  "string option \<Rightarrow> string option \<Rightarrow> string option \<Rightarrow> string option
   \<Rightarrow> string option \<times> string option \<times> string option" where
  "resolve_identity subscription_id resource_group name resource_id =
     (case resource_id of
        None \<Rightarrow> (subscription_id, resource_group, name)
      | Some rid \<Rightarrow>
         (case match_resource_id rid of
            Some (g1, g2, g3) \<Rightarrow> (Some g1, Some g2, Some g3)
          | None \<Rightarrow> (subscription_id, resource_group, name)))"

text \<open>
  \<^verbatim>\<open>Workspace.__init__\<close>. \<^verbatim>\<open>BASE_URL\<close> and \<^verbatim>\<open>ARM_BASE_URL\<close> are imported from
  \<^verbatim>\<open>azure.quantum.workspace\<close> and are parameters here.
\<close>

definition Workspace_init ::
  "(string \<Rightarrow> string) \<Rightarrow> string \<Rightarrow> string option \<Rightarrow> string option \<Rightarrow> string option
   \<Rightarrow> string option \<Rightarrow> string option \<Rightarrow> string option \<Rightarrow> credential option
   \<Rightarrow> error + workspace" where
  "Workspace_init BASE_URL ARM_BASE_URL subscription_id resource_group name storage
       resource_id location credential =
     (case resolve_identity subscription_id resource_group name resource_id of
        (subscription_id, resource_group, name) \<Rightarrow>
          if falsy subscription_id \<or> falsy resource_group \<or> falsy name
          then Inl (ValueError
                 (''Azure Quantum workspace not fully specified.''
                  @ ''Please specify either a valid resource ID ''
                  @ ''or a valid combination of subscription ID,''
                  @ ''resource group name, and workspace name.''))
          else if falsy location
          then Inl (ValueError
                 (''Azure Quantum workspace does not have an associated location. ''
                  @ ''Please specify the location associated with your workspace.''))
          else
            (let credential =
                   (case credential of
                      None \<Rightarrow> DefaultAzureCredential False (the subscription_id) ARM_BASE_URL
                    | Some c \<Rightarrow> c);
                 location' = map to_lower (filter (\<lambda>c. \<not> is_space c) (the location));
                 base_url = BASE_URL location'
             in Inr \<lparr>ws_credentials = credential,
                     ws_name = the name,
                     ws_resource_group = the resource_group,
                     ws_subscription_id = the subscription_id,
                     ws_storage = storage,
                     ws_location = location',
                     ws_client = \<lparr>client_credential = credential,
                                client_subscription_id = the subscription_id,
                                client_resource_group_name = the resource_group,
                                client_workspace_name = the name,
                                client_base_url = base_url\<rparr>\<rparr>))"

section \<open>Observations on a run\<close>

text \<open>The kinds of effects in a log.\<close>

fun is_download :: "event \<Rightarrow> bool" where
  "is_download (BlobDownload v) = True"
| "is_download e = False"

fun is_sas_call :: "event \<Rightarrow> bool" where
  "is_sas_call (StorageSasUri c b) = True"
| "is_sas_call e = False"

fun is_sleep :: "event \<Rightarrow> bool" where
  "is_sleep (Sleep d) = True"
| "is_sleep e = False"

text \<open>
  The effects of polling: a remote \<^verbatim>\<open>jobs.get\<close> and a printed dot in \<^verbatim>\<open>aio/job/job.py\<close>;
  in \<^verbatim>\<open>aio/job.py\<close> also the awaited sleep.
\<close>

fun is_poll :: "event \<Rightarrow> bool" where
  "is_poll (JobsGet j) = True"
| "is_poll PrintDot = True"
| "is_poll e = False"

fun is_poll_simple :: "event \<Rightarrow> bool" where
  "is_poll_simple (JobsGet j) = True"
| "is_poll_simple PrintDot = True"
| "is_poll_simple (Sleep d) = True"
| "is_poll_simple e = False"

text \<open>Two calls of \<^verbatim>\<open>get_results\<close> on the same object, one after the other.\<close>

definition get_results_twice ::
  "env \<Rightarrow> rat option \<Rightarrow> job \<Rightarrow> world
   \<Rightarrow> ((error + json) \<times> (error + json) \<times> job \<times> world) option" where
  "get_results_twice E timeout_secs self w =
     (case get_results E timeout_secs self w of
        None \<Rightarrow> None
      | Some (r1, self1, w1) \<Rightarrow>
         (case get_results E timeout_secs self1 w1 of
            None \<Rightarrow> None
          | Some (r2, self2, w2) \<Rightarrow> Some (r1, r2, self2, w2)))"

definition get_results_simple_twice ::
  "env \<Rightarrow> job \<Rightarrow> world \<Rightarrow> ((error + json) \<times> (error + json) \<times> job \<times> world) option" where
  "get_results_simple_twice E self w =
     (case get_results_simple E self w of
        None \<Rightarrow> None
      | Some (r1, self1, w1) \<Rightarrow>
         (case get_results_simple E self1 w1 of
            None \<Rightarrow> None
          | Some (r2, self2, w2) \<Rightarrow> Some (r1, r2, self2, w2)))"

text \<open>
  The condition of construction in the words of the specification (section 4.6): the
  resource ID resolves to a complete triple when it matches the pattern and no group is
  empty; the explicit components do when none of them is missing or empty.
\<close>

definition resource_id_complete :: "string option \<Rightarrow> bool" where
  "resource_id_complete resource_id =
     (case resource_id of
        None \<Rightarrow> False
      | Some rid \<Rightarrow>
         (case match_resource_id rid of
            None \<Rightarrow> False
          | Some (g1, g2, g3) \<Rightarrow> g1 \<noteq> [] \<and> g2 \<noteq> [] \<and> g3 \<noteq> []))"

definition resource_id_matches :: "string option \<Rightarrow> bool" where
  "resource_id_matches resource_id =
     (case resource_id of
        None \<Rightarrow> False
      | Some rid \<Rightarrow> match_resource_id rid \<noteq> None)"

definition explicit_complete :: "string option \<Rightarrow> string option \<Rightarrow> string option \<Rightarrow> bool" where
  "explicit_complete subscription_id resource_group name =
     (\<not> falsy subscription_id \<and> \<not> falsy resource_group \<and> \<not> falsy name)"

text \<open>
  When construction fails, in the words of the specification: neither the resource ID nor
  the explicit components resolve to a complete triple, or no location is supplied.
\<close>

definition spec_construction_fails ::
  "string option \<Rightarrow> string option \<Rightarrow> string option \<Rightarrow> string option \<Rightarrow> string option \<Rightarrow> bool"
  where
  "spec_construction_fails subscription_id resource_group name resource_id location =
     ((\<not> resource_id_complete resource_id
       \<and> \<not> explicit_complete subscription_id resource_group name)
      \<or> falsy location)"

definition is_ValueError :: "error + workspace \<Rightarrow> bool" where
  "is_ValueError r = (case r of Inl (ValueError m) \<Rightarrow> True | _ \<Rightarrow> False)"

text \<open>
  What holds of the outcome of a polling loop entered with the object \<open>self\<close> and the log
  \<open>w\<close>: only \<^verbatim>\<open>details\<close> may differ, the log has grown by effects of polling, and the loop
  ends normally exactly on a completed job.
\<close>

definition loop_post :: "bool \<Rightarrow> job \<Rightarrow> world \<Rightarrow> unit outcome \<Rightarrow> bool" where
  "loop_post simple self w y =
     (case y of (r, self', w') \<Rightarrow>
        results self' = results self \<and> job_id self' = job_id self
        \<and> job_workspace self' = job_workspace self
        \<and> (\<exists>evs. w' = w @ evs \<and> list_all (if simple then is_poll_simple else is_poll) evs)
        \<and> (case r of Inr u \<Rightarrow> has_completed self' | Inl e \<Rightarrow> \<not> has_completed self'))"






section \<open>Example inputs\<close>

definition example_BASE_URL :: "string \<Rightarrow> string" where
  "example_BASE_URL l = ''https://'' @ l @ ''.quantum.azure.com/''"

definition example_ARM_BASE_URL :: string where
  "example_ARM_BASE_URL = ''https://management.azure.com/''"

definition example_resource_id :: string where
  "example_resource_id =
     ''/subscriptions/ab-1/resourceGroups/rg/providers/Microsoft.Quantum/Workspaces/ws''"

text \<open>A resource ID that matches the pattern with an empty subscription group.\<close>

definition empty_subscription_resource_id :: string where
  "empty_subscription_resource_id =
     ''/subscriptions//resourceGroups/rg/providers/Microsoft.Quantum/Workspaces/ws''"

definition upper_case_resource_id :: string where
  "upper_case_resource_id =
     ''/SUBSCRIPTIONS/AB-1/RESOURCEGROUPS/RG/PROVIDERS/MICROSOFT.QUANTUM/WORKSPACES/WS''"

definition example_workspace :: workspace where
  "example_workspace =
     \<lparr>ws_credentials = GivenCredential ''token'',
      ws_name = ''ws'', ws_resource_group = ''rg'', ws_subscription_id = ''ab-1'',
      ws_storage = None, ws_location = ''westus'',
      ws_client = \<lparr>client_credential = GivenCredential ''token'',
                    client_subscription_id = ''ab-1'',
                    client_resource_group_name = ''rg'',
                    client_workspace_name = ''ws'',
                    client_base_url = ''https://westus.quantum.azure.com/''\<rparr>\<rparr>"

definition example_details :: "string \<Rightarrow> string option \<Rightarrow> string option \<Rightarrow> job_details" where
  "example_details st uri err =
     \<lparr>details_id = ''job-1'', status = st, output_data_uri = uri, error_data = err\<rparr>"

definition example_job :: "string \<Rightarrow> string option \<Rightarrow> string option \<Rightarrow> job" where
  "example_job st uri err = Job_init example_workspace (example_details st uri err)"

text \<open>
  A service on which the job is \<^verbatim>\<open>Executing\<close> while fewer than \<open>k\<close> effects have happened
  and has the details \<open>final\<close> from then on; the SAS operation signs the blob's URL; the blob
  client returns the payload \<^verbatim>\<open>{}\<close> for a string and rejects any other value.
\<close>

definition example_env :: "nat \<Rightarrow> job_details \<Rightarrow> env" where
  "example_env k final =
     \<lparr>jobs_get = (\<lambda>n jid. Inr (if n < k then example_details ''Executing'' None None
                                 else final)),
      storage_sas_uri = (\<lambda>n c b. Inr (''https://acct.blob.core.windows.net/'' @ c
                                        @ ''/blob?sv=1&se=2&sig=3'')),
      blob_names = (\<lambda>u. Inr (''container'', ''blob'')),
      blob_readall =
        (\<lambda>n v. case v of
                  UriStr u \<Rightarrow> Inr ''{}''
                | SasCoroutine c b \<Rightarrow> Inl (ValueError ''Blob URL must be a string.'')),
      json_loads_utf8 = (\<lambda>p. if p = ''{}'' then Inr (JObj []) else Inl (ServiceError p))\<rparr>"

definition signed_uri :: string where
  "signed_uri = ''https://acct.blob.core.windows.net/container/blob?sv=1&se=2&sig=3''"

definition bare_uri :: string where
  "bare_uri = ''https://acct.blob.core.windows.net/container/blob''"

definition rose_uri :: string where
  "rose_uri = ''https://acct.blob.core.windows.net/container/blob?rose=1''"

definition path_se_uri :: string where
  "path_se_uri = ''https://acct.blob.core.windows.net/se=/blob''"


section \<open>Refresh and the polling loops\<close>

text \<open>
  One \<^verbatim>\<open>refresh\<close> adds one remote \<^verbatim>\<open>jobs.get\<close> to the log and leaves every field but
  \<^verbatim>\<open>details\<close> as it was; when the remote call raises, the object is unchanged.
\<close>

lemma refresh_cases:
  assumes "refresh E self w = (r, self', w')"
  shows "w' = w @ [JobsGet (job_id self)]"
    and "results self' = results self"
    and "job_id self' = job_id self"
    and "job_workspace self' = job_workspace self"
    and "r = Inl e \<Longrightarrow> self' = self"
  using assms
  by (auto simp: refresh_def await_def get_job_def split: sum.splits)

lemma loop_post_refl:
  "has_completed self \<Longrightarrow> loop_post s self w (Inr (), self, w)"
  by (simp add: loop_post_def)

lemma loop_post_timeout:
  "\<not> has_completed self \<Longrightarrow> loop_post s self w (Inl e, self, w)"
  by (simp add: loop_post_def)

lemma loop_post_error:
  "\<not> has_completed self \<Longrightarrow> list_all (if s then is_poll_simple else is_poll) evs
   \<Longrightarrow> loop_post s self w (Inl e, self, w @ evs)"
  by (simp add: loop_post_def)

lemma loop_post_step:
  assumes "loop_post s mid (w @ evs) y" "results mid = results self" "job_id mid = job_id self"
    "job_workspace mid = job_workspace self" "list_all (if s then is_poll_simple else is_poll) evs"
  shows "loop_post s self w y"
proof -
  obtain r self' w' where y: "y = (r, self', w')" by (cases y) auto
  from assms(1) y obtain evs' where e: "w' = (w @ evs) @ evs'"
    "list_all (if s then is_poll_simple else is_poll) evs'"
    by (auto simp: loop_post_def)
  have "w' = w @ (evs @ evs')" using e(1) by simp
  moreover have "list_all (if s then is_poll_simple else is_poll) (evs @ evs')"
    using e(2) assms(5) by simp
  ultimately have "\<exists>evs. w' = w @ evs \<and> list_all (if s then is_poll_simple else is_poll) evs"
    by blast
  with assms(1-4) y show ?thesis
    by (simp add: loop_post_def)
qed

lemma wait_loop_post:
  assumes "wait_loop E0 m0 t0 pp0 p0 tt0 self0 w0 = Some y0"
  shows "loop_post False self0 w0 y0"
proof (rule wait_loop.raw_induct[where P="\<lambda>E m t pp p tt self w y. loop_post False self w y", OF _ assms])
  fix wl E m t pp p tt self w y
  assume IH: "\<And>E m t pp p tt self w y. wl E m t pp p tt self w = Some y \<Longrightarrow> loop_post False self w y"
    and eq: "(if has_completed self then Some (Inr (), self, w)
      else if t \<noteq> None \<and> the t \<le> tt
           then Some (Inl (TimeoutError (the t)), self, w)
           else let w1 = if pp then w @ [PrintDot] else w;
                    dropped = asyncio_sleep p;
                    total_time' = tt + p
                in case refresh E self w1 of
                   (Inl e, self', w2) \<Rightarrow> Some (Inl e, self', w2)
                   | (Inr u, self', w2) \<Rightarrow>
                       wl E m t pp (next_poll_wait m p) total_time' self' w2) = Some y"
  show "loop_post False self w y"
  proof (cases "has_completed self")
    case True
    with eq have "y = (Inr (), self, w)" by simp
    with True show ?thesis by (simp add: loop_post_refl)
  next
    case nc: False
    show ?thesis
    proof (cases "t \<noteq> None \<and> the t \<le> tt")
      case True
      with nc eq have "y = (Inl (TimeoutError (the t)), self, w)" by simp
      with nc show ?thesis by (simp add: loop_post_timeout)
    next
      case nt: False
      define evs0 where "evs0 = (if pp then [PrintDot] else [])"
      have w1: "(if pp then w @ [PrintDot] else w) = w @ evs0"
        by (simp add: evs0_def)
      obtain r self1 w2 where rf: "refresh E self (w @ evs0) = (r, self1, w2)"
        by (cases "refresh E self (w @ evs0)") auto
      note rc = refresh_cases[OF rf]
      from eq nc nt have eq': "(case refresh E self (w @ evs0) of
                   (Inl e, self', w2) \<Rightarrow> Some (Inl e, self', w2)
                   | (Inr u, self', w2) \<Rightarrow>
                       wl E m t pp (next_poll_wait m p) (tt + p) self' w2) = Some y"
        unfolding w1 Let_def by (simp only: nc nt if_False)
      have w2: "w2 = w @ (evs0 @ [JobsGet (job_id self)])"
        using rc(1) by simp
      have polls: "list_all (if False then is_poll_simple else is_poll) (evs0 @ [JobsGet (job_id self)])"
        by (simp add: evs0_def)
      show ?thesis
      proof (cases r)
        case (Inl e)
        with eq' rf have "y = (Inl e, self1, w2)" by simp
        moreover have "self1 = self" using rc(5)[OF Inl] .
        ultimately show ?thesis
          using loop_post_error[OF nc polls] w2 by simp
      next
        case (Inr u)
        with eq' rf have "wl E m t pp (next_poll_wait m p) (tt + p) self1 w2 = Some y"
          by simp
        from IH[OF this] have "loop_post False self1 (w @ (evs0 @ [JobsGet (job_id self)])) y"
          unfolding w2 .
        then show ?thesis
          using rc(2,3,4) polls by (rule loop_post_step)
      qed
    qed
  qed
qed

lemma wait_loop_simple_post:
  assumes "wait_loop_simple E0 m0 p0 self0 w0 = Some y0"
  shows "loop_post True self0 w0 y0"
proof (rule wait_loop_simple.raw_induct[where P="\<lambda>E m p self w y. loop_post True self w y", OF _ assms])
  fix wl E m p self w y
  assume IH: "\<And>E m p self w y. wl E m p self w = Some y \<Longrightarrow> loop_post True self w y"
    and eq: "(if has_completed self then Some (Inr (), self, w)
      else case await (asyncio_sleep p) (w @ [PrintDot]) of
           (Inl e, w1) \<Rightarrow> Some (Inl e, self, w1)
           | (Inr u, w1) \<Rightarrow>
               case refresh E self w1 of
               (Inl e, self', w2) \<Rightarrow> Some (Inl e, self', w2)
               | (Inr u', self', w2) \<Rightarrow>
                   wl E m (next_poll_wait m p) self' w2) = Some y"
  show "loop_post True self w y"
  proof (cases "has_completed self")
    case True
    with eq have "y = (Inr (), self, w)" by simp
    with True show ?thesis by (simp add: loop_post_refl)
  next
    case nc: False
    have sl: "await (asyncio_sleep p) (w @ [PrintDot]) = (Inr (), w @ [PrintDot, Sleep p])"
      by (simp add: await_def asyncio_sleep_def)
    obtain r self1 w2 where rf: "refresh E self (w @ [PrintDot, Sleep p]) = (r, self1, w2)"
      by (cases "refresh E self (w @ [PrintDot, Sleep p])") auto
    note rc = refresh_cases[OF rf]
    from eq nc have eq': "(case refresh E self (w @ [PrintDot, Sleep p]) of
               (Inl e, self', w2) \<Rightarrow> Some (Inl e, self', w2)
               | (Inr u', self', w2) \<Rightarrow>
                   wl E m (next_poll_wait m p) self' w2) = Some y"
      unfolding sl by simp
    have w2: "w2 = w @ ([PrintDot, Sleep p] @ [JobsGet (job_id self)])"
      using rc(1) by simp
    have polls: "list_all (if True then is_poll_simple else is_poll)
                   ([PrintDot, Sleep p] @ [JobsGet (job_id self)])"
      by simp
    show ?thesis
    proof (cases r)
      case (Inl e)
      with eq' rf have "y = (Inl e, self1, w2)" by simp
      moreover have "self1 = self" using rc(5)[OF Inl] .
      ultimately show ?thesis
        using loop_post_error[OF nc polls] w2 by simp
    next
      case (Inr u)
      with eq' rf have "wl E m (next_poll_wait m p) self1 w2 = Some y"
        by simp
      from IH[OF this]
      have "loop_post True self1 (w @ ([PrintDot, Sleep p] @ [JobsGet (job_id self)])) y"
        unfolding w2 .
      then show ?thesis
        using rc(2,3,4) polls by (rule loop_post_step)
    qed
  qed
qed

text \<open>
  C9. A call of \<^verbatim>\<open>refresh\<close> (the same body in both classes) leaves \<^verbatim>\<open>id\<close>, \<^verbatim>\<open>workspace\<close> and
  \<^verbatim>\<open>results\<close> unchanged, makes exactly one remote \<^verbatim>\<open>jobs.get\<close>, and replaces \<^verbatim>\<open>details\<close>
  by the details fetched; when the remote call raises, the error is passed on and the whole
  object is unchanged. In particular a populated \<^verbatim>\<open>results\<close> survives every refresh.
\<close>

theorem refresh_replaces_only_details:
  "job_id (fst (snd (refresh E self w))) = job_id self
   \<and> job_workspace (fst (snd (refresh E self w))) = job_workspace self
   \<and> results (fst (snd (refresh E self w))) = results self
   \<and> snd (snd (refresh E self w)) = w @ [JobsGet (job_id self)]
   \<and> (case jobs_get E (length w) (job_id self) of
        Inr d \<Rightarrow> fst (refresh E self w) = Inr () \<and> details (fst (snd (refresh E self w))) = d
      | Inl e \<Rightarrow> fst (refresh E self w) = Inl e \<and> fst (snd (refresh E self w)) = self)"
  by (simp add: refresh_def await_def get_job_def Job_init_def split: sum.splits)

lemma wait_until_completed_post:
  assumes "wait_until_completed E m t pp self w = Some y" and nc: "\<not> has_completed self"
  shows "loop_post False self w y"
proof -
  obtain r self1 w1 where rf: "refresh E self w = (r, self1, w1)"
    by (cases "refresh E self w") auto
  note rc = refresh_cases[OF rf]
  have polls: "list_all (if False then is_poll_simple else is_poll) [JobsGet (job_id self)]"
    by simp
  show ?thesis
  proof (cases r)
    case (Inl e)
    with assms(1) rf have "y = (Inl e, self1, w1)"
      by (simp add: wait_until_completed_def)
    moreover have "self1 = self" using rc(5)[OF Inl] .
    ultimately show ?thesis
      using loop_post_error[OF nc polls] rc(1) by simp
  next
    case (Inr u)
    with assms(1) rf have "wait_loop E m t pp (1 / 5) 0 self1 w1 = Some y"
      by (simp add: wait_until_completed_def)
    from wait_loop_post[OF this] have "loop_post False self1 (w @ [JobsGet (job_id self)]) y"
      unfolding rc(1) .
    then show ?thesis
      using rc(2,3,4) polls by (rule loop_post_step)
  qed
qed

lemma wait_until_completed_simple_post:
  assumes "wait_until_completed_simple E m self w = Some y" and nc: "\<not> has_completed self"
  shows "loop_post True self w y"
proof -
  obtain r self1 w1 where rf: "refresh E self w = (r, self1, w1)"
    by (cases "refresh E self w") auto
  note rc = refresh_cases[OF rf]
  have polls: "list_all (if True then is_poll_simple else is_poll) [JobsGet (job_id self)]"
    by simp
  show ?thesis
  proof (cases r)
    case (Inl e)
    with assms(1) rf have "y = (Inl e, self1, w1)"
      by (simp add: wait_until_completed_simple_def)
    moreover have "self1 = self" using rc(5)[OF Inl] .
    ultimately show ?thesis
      using loop_post_error[OF nc polls] rc(1) by simp
  next
    case (Inr u)
    with assms(1) rf have "wait_loop_simple E m (1 / 5) self1 w1 = Some y"
      by (simp add: wait_until_completed_simple_def)
    from wait_loop_simple_post[OF this] have "loop_post True self1 (w @ [JobsGet (job_id self)]) y"
      unfolding rc(1) .
    then show ?thesis
      using rc(2,3,4) polls by (rule loop_post_step)
  qed
qed

lemma loop_post_quiet:
  assumes "loop_post s self w (r, self', w')"
  shows "filter is_download w' = filter is_download w"
    and "filter is_sas_call w' = filter is_sas_call w"
    and "results self' = results self"
    and "r = Inl e \<Longrightarrow> \<not> has_completed self'"
proof -
  from assms obtain evs where e: "w' = w @ evs" "list_all (if s then is_poll_simple else is_poll) evs"
    by (auto simp: loop_post_def)
  have q: "\<not> is_download x \<and> \<not> is_sas_call x" if "(if s then is_poll_simple else is_poll) x" for x
    using that by (cases x; cases s) auto
  from e(2) q have "filter is_download evs = []" "filter is_sas_call evs = []"
    by (auto simp: list_all_iff filter_empty_conv)
  with e(1) show "filter is_download w' = filter is_download w"
    "filter is_sas_call w' = filter is_sas_call w" by simp_all
  from assms show "results self' = results self" by (simp add: loop_post_def)
  from assms show "r = Inl e \<Longrightarrow> \<not> has_completed self'" by (simp add: loop_post_def)
qed

lemma loop_post_no_sleep:
  assumes "loop_post False self w (r, self', w')"
  shows "filter is_sleep w' = filter is_sleep w"
proof -
  from assms obtain evs where e: "w' = w @ evs" "list_all is_poll evs"
    by (auto simp: loop_post_def)
  have q: "\<not> is_sleep x" if "is_poll x" for x
    using that by (cases x) auto
  from e(2) q have "filter is_sleep evs = []"
    by (auto simp: list_all_iff filter_empty_conv)
  with e(1) show ?thesis by simp
qed


lemma get_results_failed:
  assumes "results self = None" and g: "get_results E t self w = Some (r, self', w')"
    and c: "has_completed self'" and ns: "status (details self') \<noteq> ''Succeeded''"
  shows "r = Inl (RuntimeError (status (details self')) (error_data (details self')))
         \<and> filter is_download w' = filter is_download w
         \<and> filter is_sas_call w' = filter is_sas_call w"
proof -
  define ph where "ph = (if \<not> has_completed self
                         then wait_until_completed E 30 t True self w
                         else Some (Inr (), self, w))"
  from assms(1) g have g1: "(case ph of
            None \<Rightarrow> None
          | Some (Inl e, self1, w1) \<Rightarrow> Some (Inl e, self1, w1)
          | Some (Inr u, self1, w1) \<Rightarrow>
             (if \<not> status (details self1) = ''Succeeded''
              then Some (Inl (RuntimeError (status (details self1)) (error_data (details self1))),
                         self1, w1)
              else
               (case await (download_data E self1 (output_data_uri (details self1))) w1 of
                  (Inl e, w2) \<Rightarrow> Some (Inl e, self1, w2)
                | (Inr payload, w2) \<Rightarrow>
                   (case json_loads_utf8 E payload of
                      Inl e \<Rightarrow> Some (Inl e, self1, w2)
                    | Inr results' \<Rightarrow> Some (Inr results', self1, w2))))) = Some (r, self', w')"
    unfolding get_results_def ph_def by simp
  then obtain r0 self1 w1 where ph: "ph = Some (r0, self1, w1)"
    by (cases ph) auto
  have lp: "loop_post False self w (r0, self1, w1)"
  proof (cases "has_completed self")
    case True
    with ph have "(r0, self1, w1) = (Inr (), self, w)" by (simp add: ph_def)
    with True show ?thesis by (simp add: loop_post_refl)
  next
    case False
    with ph have "wait_until_completed E 30 t True self w = Some (r0, self1, w1)"
      by (simp add: ph_def)
    from wait_until_completed_post[OF this False] show ?thesis .
  qed
  note q = loop_post_quiet[OF lp]
  show ?thesis
  proof (cases r0)
    case (Inl e)
    with g1 ph have "self' = self1" by simp
    with q(4)[OF Inl] c show ?thesis by simp
  next
    case (Inr u)
    show ?thesis
    proof (cases "status (details self1) = ''Succeeded''")
      case True
      with g1 ph Inr have "self' = self1"
        by (auto split: prod.splits sum.splits)
      with True ns show ?thesis by simp
    next
      case False
      with g1 ph Inr have "r = Inl (RuntimeError (status (details self1)) (error_data (details self1)))"
        "self' = self1" "w' = w1" by auto
      with q(1,2) show ?thesis by simp
    qed
  qed
qed

lemma get_results_simple_failed:
  assumes "results self = None" and g: "get_results_simple E self w = Some (r, self', w')"
    and c: "has_completed self'" and ns: "status (details self') \<noteq> ''Succeeded''"
  shows "r = Inl (RuntimeError (status (details self')) (error_data (details self')))
         \<and> filter is_download w' = filter is_download w
         \<and> filter is_sas_call w' = filter is_sas_call w"
proof -
  define ph where "ph = (if \<not> has_completed self
                         then wait_until_completed_simple E 30 self w
                         else Some (Inr (), self, w))"
  obtain r0 self1 w1 where ph: "ph = Some (r0, self1, w1)"
    using assms(1) g unfolding get_results_simple_def ph_def[symmetric]
    by (cases ph) auto
  have lp: "loop_post True self w (r0, self1, w1)"
  proof (cases "has_completed self")
    case True
    with ph have "(r0, self1, w1) = (Inr (), self, w)" by (simp add: ph_def)
    with True show ?thesis by (simp add: loop_post_refl)
  next
    case False
    with ph have "wait_until_completed_simple E 30 self w = Some (r0, self1, w1)"
      by (simp add: ph_def)
    from wait_until_completed_simple_post[OF this False] show ?thesis .
  qed
  note q = loop_post_quiet[OF lp]
  show ?thesis
  proof (cases r0)
    case (Inl e)
    with assms(1) g ph have "self' = self1"
      unfolding get_results_simple_def ph_def[symmetric] by simp
    with q(4)[OF Inl] c show ?thesis by simp
  next
    case (Inr u)
    show ?thesis
    proof (cases "status (details self1) = ''Succeeded''")
      case True
      with assms(1) g ph Inr have "self' = self1"
        unfolding get_results_simple_def ph_def[symmetric]
        by (auto split: prod.splits sum.splits option.splits if_splits)
      with True ns show ?thesis by simp
    next
      case False
      with assms(1) g ph Inr have "r = Inl (RuntimeError (status (details self1)) (error_data (details self1)))"
        "self' = self1" "w' = w1"
        unfolding get_results_simple_def ph_def[symmetric] by auto
      with q(1,2) show ?thesis by simp
    qed
  qed
qed

lemma get_results_terminal_failed:
  assumes "results self = None" "has_completed self" "status (details self) \<noteq> ''Succeeded''"
  shows "get_results E t self w =
           Some (Inl (RuntimeError (status (details self)) (error_data (details self))), self, w)"
    and "get_results_simple E self w =
           Some (Inl (RuntimeError (status (details self)) (error_data (details self))), self, w)"
  using assms by (simp_all add: get_results_def get_results_simple_def)

section \<open>Result retrieval\<close>

text \<open>
  No method assigns \<^verbatim>\<open>self.results\<close>: \<^verbatim>\<open>__init__\<close> sets it to \<^verbatim>\<open>None\<close>, and \<^verbatim>\<open>refresh\<close>,
  \<^verbatim>\<open>wait_until_completed\<close> and \<^verbatim>\<open>get_results\<close> leave it as it is. Every \<^verbatim>\<open>Job\<close> that the
  modules build and use has \<^verbatim>\<open>results = None\<close>.
\<close>

lemma Job_init_results: "results (Job_init ws d) = None"
  by (simp add: Job_init_def)

lemma get_results_keeps_results:
  assumes g: "get_results E t self w = Some (r, self', w')"
  shows "results self' = results self"
proof (cases "results self")
  case (Some x)
  with g show ?thesis by (simp add: get_results_def)
next
  case None
  define ph where "ph = (if \<not> has_completed self
                         then wait_until_completed E 30 t True self w
                         else Some (Inr (), self, w))"
  from None g obtain r0 w1 where ph: "ph = Some (r0, self', w1)"
    unfolding get_results_def ph_def[symmetric]
    by (auto split: option.splits sum.splits prod.splits if_splits)
  have "loop_post False self w (r0, self', w1)"
  proof (cases "has_completed self")
    case True
    with ph have "(r0, self', w1) = (Inr (), self, w)" by (simp add: ph_def)
    with True show ?thesis by (simp add: loop_post_refl)
  next
    case False
    with ph have "wait_until_completed E 30 t True self w = Some (r0, self', w1)"
      by (simp add: ph_def)
    from wait_until_completed_post[OF this False] show ?thesis .
  qed
  from loop_post_quiet(3)[OF this] show ?thesis .
qed

lemma get_results_simple_keeps_results:
  assumes g: "get_results_simple E self w = Some (r, self', w')"
  shows "results self' = results self"
proof (cases "results self")
  case (Some x)
  with g show ?thesis by (simp add: get_results_simple_def)
next
  case None
  define ph where "ph = (if \<not> has_completed self
                         then wait_until_completed_simple E 30 self w
                         else Some (Inr (), self, w))"
  from None g obtain r0 w1 where ph: "ph = Some (r0, self', w1)"
    unfolding get_results_simple_def ph_def[symmetric]
    by (auto split: option.splits sum.splits prod.splits if_splits)
  have "loop_post True self w (r0, self', w1)"
  proof (cases "has_completed self")
    case True
    with ph have "(r0, self', w1) = (Inr (), self, w)" by (simp add: ph_def)
    with True show ?thesis by (simp add: loop_post_refl)
  next
    case False
    with ph have "wait_until_completed_simple E 30 self w = Some (r0, self', w1)"
      by (simp add: ph_def)
    from wait_until_completed_simple_post[OF this False] show ?thesis .
  qed
  from loop_post_quiet(3)[OF this] show ?thesis .
qed





text \<open>
  C5. Let the memo \<^verbatim>\<open>results\<close> be empty, as it is on every \<^verbatim>\<open>Job\<close> the modules build. On a
  job that is completed with a status other than \<^verbatim>\<open>Succeeded\<close>, \<^verbatim>\<open>get_results\<close> of both
  classes returns at once with the \<^verbatim>\<open>RuntimeError\<close> that carries this status and the error
  data, and the log is unchanged: no remote call at all. Whenever a call of \<^verbatim>\<open>get_results\<close>
  returns and leaves the job completed with a status other than \<^verbatim>\<open>Succeeded\<close> (also after
  waiting for it), the result is that \<^verbatim>\<open>RuntimeError\<close>, and the call has made no blob download
  and no SAS call.
\<close>

theorem get_results_not_succeeded:
  assumes "results self = None"
  shows "(has_completed self \<and> status (details self) \<noteq> ''Succeeded'' \<longrightarrow>
            get_results E t self w =
              Some (Inl (RuntimeError (status (details self)) (error_data (details self))), self, w)
            \<and> get_results_simple E self w =
              Some (Inl (RuntimeError (status (details self)) (error_data (details self))), self, w))
       \<and> (get_results E t self w = Some (r, self', w') \<and> has_completed self'
            \<and> status (details self') \<noteq> ''Succeeded'' \<longrightarrow>
            r = Inl (RuntimeError (status (details self')) (error_data (details self')))
            \<and> filter is_download w' = filter is_download w
            \<and> filter is_sas_call w' = filter is_sas_call w)
       \<and> (get_results_simple E self w = Some (r2, self2, w2) \<and> has_completed self2
            \<and> status (details self2) \<noteq> ''Succeeded'' \<longrightarrow>
            r2 = Inl (RuntimeError (status (details self2)) (error_data (details self2)))
            \<and> filter is_download w2 = filter is_download w
            \<and> filter is_sas_call w2 = filter is_sas_call w)"
proof (intro conjI impI)
  assume a: "has_completed self \<and> status (details self) \<noteq> ''Succeeded''"
  then have c: "has_completed self" and n: "status (details self) \<noteq> ''Succeeded''"
    by simp_all
  from get_results_terminal_failed(1)[OF assms c n]
  show "get_results E t self w =
          Some (Inl (RuntimeError (status (details self)) (error_data (details self))), self, w)" .
  from get_results_terminal_failed(2)[OF assms c n]
  show "get_results_simple E self w =
          Some (Inl (RuntimeError (status (details self)) (error_data (details self))), self, w)" .
next
  assume a: "get_results E t self w = Some (r, self', w') \<and> has_completed self'
            \<and> status (details self') \<noteq> ''Succeeded''"
  then have f: "r = Inl (RuntimeError (status (details self')) (error_data (details self')))
         \<and> filter is_download w' = filter is_download w
         \<and> filter is_sas_call w' = filter is_sas_call w"
    using get_results_failed[OF assms] by blast
  from f show "r = Inl (RuntimeError (status (details self')) (error_data (details self')))"
    by simp
  from f show "filter is_download w' = filter is_download w" by simp
  from f show "filter is_sas_call w' = filter is_sas_call w" by simp
next
  assume a: "get_results_simple E self w = Some (r2, self2, w2) \<and> has_completed self2
            \<and> status (details self2) \<noteq> ''Succeeded''"
  then have f: "r2 = Inl (RuntimeError (status (details self2)) (error_data (details self2)))
         \<and> filter is_download w2 = filter is_download w
         \<and> filter is_sas_call w2 = filter is_sas_call w"
    using get_results_simple_failed[OF assms] by blast
  from f show "r2 = Inl (RuntimeError (status (details self2)) (error_data (details self2)))"
    by simp
  from f show "filter is_download w2 = filter is_download w" by simp
  from f show "filter is_sas_call w2 = filter is_sas_call w" by simp
qed

theorem get_results_not_succeeded_witness:
  "results (example_job ''Failed'' None (Some ''boom'')) = None
   \<and> has_completed (example_job ''Failed'' None (Some ''boom''))
   \<and> get_results (example_env 0 (example_details ''Failed'' None (Some ''boom''))) (Some 300)
        (example_job ''Failed'' None (Some ''boom'')) []
      = Some (Inl (RuntimeError ''Failed'' (Some ''boom'')),
              example_job ''Failed'' None (Some ''boom''), [])
   \<and> get_results_simple (example_env 0 (example_details ''Failed'' None (Some ''boom'')))
        (example_job ''Failed'' None (Some ''boom'')) []
      = Some (Inl (RuntimeError ''Failed'' (Some ''boom'')),
              example_job ''Failed'' None (Some ''boom''), [])
   \<and> get_results (example_env 2 (example_details ''Failed'' None (Some ''boom''))) (Some 300)
        (example_job ''Waiting'' None None) []
      = Some (Inl (RuntimeError ''Failed'' (Some ''boom'')),
              example_job ''Failed'' None (Some ''boom''),
              [JobsGet ''job-1'', PrintDot, JobsGet ''job-1''])
   \<and> get_results_simple (example_env 2 (example_details ''Failed'' None (Some ''boom'')))
        (example_job ''Waiting'' None None) []
      = Some (Inl (RuntimeError ''Failed'' (Some ''boom'')),
              example_job ''Failed'' None (Some ''boom''),
              [JobsGet ''job-1'', PrintDot, Sleep (1 / 5), JobsGet ''job-1''])"
proof -
  let ?F = "example_job ''Failed'' None (Some ''boom'')"
  have h: "results ?F = None" "has_completed ?F" "status (details ?F) \<noteq> ''Succeeded''"
    "status (details ?F) = ''Failed''" "error_data (details ?F) = Some ''boom''"
    by (simp_all add: example_job_def Job_init_def example_details_def has_completed_def)
  have a: "get_results (example_env 2 (example_details ''Failed'' None (Some ''boom''))) (Some 300)
        (example_job ''Waiting'' None None) []
      = Some (Inl (RuntimeError ''Failed'' (Some ''boom'')), ?F,
              [JobsGet ''job-1'', PrintDot, JobsGet ''job-1''])"
    by code_simp
  have b: "get_results_simple (example_env 2 (example_details ''Failed'' None (Some ''boom'')))
        (example_job ''Waiting'' None None) []
      = Some (Inl (RuntimeError ''Failed'' (Some ''boom'')), ?F,
              [JobsGet ''job-1'', PrintDot, Sleep (1 / 5), JobsGet ''job-1''])"
    by code_simp
  from get_results_not_succeeded[OF h(1),
      where E = "example_env 0 (example_details ''Failed'' None (Some ''boom''))"
        and t = "Some 300" and w = "[]"]
    h a b
  show ?thesis by simp
qed

section \<open>The timeout of the polling loop\<close>



end
